theory Spec2Isabelle
  imports Main
begin

section \<open>The maintenance dashboard: Landing view and Dashboard view\<close>

text \<open>
  A shallow embedding of \<^verbatim>\<open>src/pages/Index.tsx\<close> and \<^verbatim>\<open>src/pages/Dashboard.tsx\<close>.
  A component is a function from its state to the element tree it returns; an async
  handler is a function from the answers of the gateway and the component state to the
  new state and the list of calls it made, in order.
\<close>

subsection \<open>Text\<close>

text \<open>
  The Portuguese texts of the views use six letters beyond ASCII. Each is one UTF-16
  unit in the source and one \<^typ>\<open>char\<close> here (its Latin-1 code).
\<close>

abbreviation a_acute :: char where "a_acute \<equiv> CHR 0xE1"
abbreviation a_tilde :: char where "a_tilde \<equiv> CHR 0xE3"
abbreviation c_cedilla :: char where "c_cedilla \<equiv> CHR 0xE7"
abbreviation e_acute :: char where "e_acute \<equiv> CHR 0xE9"
abbreviation e_circ :: char where "e_circ \<equiv> CHR 0xEA"
abbreviation o_acute :: char where "o_acute \<equiv> CHR 0xF3"

subsection \<open>Element trees\<close>

text \<open>
  What a component returns: text nodes and elements with a tag, attributes and children.
  Of the attributes the model keeps \<^verbatim>\<open>href\<close>, \<^verbatim>\<open>onClick\<close> and \<^verbatim>\<open>variant\<close>;
  \<^verbatim>\<open>className\<close> (styling only) is left out. An \<^verbatim>\<open>onClick\<close> of the source is either
  \<^verbatim>\<open>() => navigate(path)\<close> or \<^verbatim>\<open>handleLogout\<close>.
\<close>

datatype handler = NavigateTo string | HandleLogout

datatype attr = Href string | OnClick handler | Variant string

datatype element = Text string | Elem string "attr list" "element list"

text \<open>
  A JSX child \<^verbatim>\<open>{cond && (<X/>)}\<close> renders nothing when \<^verbatim>\<open>cond\<close> is falsy, and a child
  \<^verbatim>\<open>{v}\<close> renders nothing when \<^verbatim>\<open>v\<close> is \<^verbatim>\<open>undefined\<close> or \<^verbatim>\<open>null\<close>.
\<close>

definition jsx_and :: "bool \<Rightarrow> element \<Rightarrow> element list" where
  "jsx_and c e = (if c then [e] else [])"

definition jsx_value :: "string option \<Rightarrow> element list" where
  "jsx_value v = (case v of None \<Rightarrow> [] | Some s \<Rightarrow> [Text s])"

text \<open>
  \<^verbatim>\<open>a || b\<close> on values that are a string or \<^verbatim>\<open>undefined\<close>: \<^verbatim>\<open>b\<close> when \<^verbatim>\<open>a\<close> is
  falsy, that is \<^verbatim>\<open>undefined\<close> or the empty string.
\<close>

definition js_or :: "string option \<Rightarrow> string option \<Rightarrow> string option" where
  "js_or a b = (case a of None \<Rightarrow> b | Some s \<Rightarrow> if s = [] then b else Some s)"

subsection \<open>Reading an element tree\<close>

fun elems_with_tag :: "string \<Rightarrow> element \<Rightarrow> element list" where
  "elems_with_tag t (Text s) = []"
| "elems_with_tag t (Elem tag ats kids) =
     (if tag = t then [Elem tag ats kids] else []) @ concat (map (elems_with_tag t) kids)"

fun text_content :: "element \<Rightarrow> string" where
  "text_content (Text s) = s"
| "text_content (Elem tag ats kids) = concat (map text_content kids)"

fun own_text :: "element \<Rightarrow> string" where
  "own_text (Text s) = s"
| "own_text (Elem tag ats kids) =
     concat (map (\<lambda>k. case k of Text s \<Rightarrow> s | Elem _ _ _ \<Rightarrow> []) kids)"

fun attr_targets :: "attr \<Rightarrow> string list" where
  "attr_targets (Href p) = [p]"
| "attr_targets (OnClick (NavigateTo p)) = [p]"
| "attr_targets (OnClick HandleLogout) = []"
| "attr_targets (Variant v) = []"

text \<open>The navigation affordances of a tree: every link and every navigating button.\<close>

fun nav_targets :: "element \<Rightarrow> string list" where
  "nav_targets (Text s) = []"
| "nav_targets (Elem tag ats kids) =
     concat (map attr_targets ats) @ concat (map nav_targets kids)"

definition card_titles :: "element \<Rightarrow> string list" where
  "card_titles v = map text_content (elems_with_tag ''CardTitle'' v)"

definition card_actions :: "element \<Rightarrow> (string \<times> string list) list" where
  "card_actions v =
     map (\<lambda>c. (concat (card_titles c), nav_targets c)) (elems_with_tag ''Card'' v)"

definition badges :: "element \<Rightarrow> string list" where
  "badges v = map text_content (elems_with_tag ''Badge'' v)"

definition paragraphs :: "element \<Rightarrow> string list" where
  "paragraphs v = map own_text (elems_with_tag ''p'' v)"

subsection \<open>The Landing view (\<^verbatim>\<open>Index.tsx\<close>)\<close>

definition Index :: "unit \<Rightarrow> element" where
  "Index u =
     Elem ''div'' []
       [Elem ''div'' []
          [Elem ''h1'' [] [Text (''Sistema de Gerenciamento de Manuten'' @ [c_cedilla, a_tilde] @ ''o'')],
           Elem ''p'' []
             [Text (''Controle completo de ordens de servi'' @ [c_cedilla] @ ''o, m''
                    @ [a_acute] @ ''quinas e m'' @ [e_acute] @ ''tricas'')],
           Elem ''div'' [] [Elem ''a'' [Href ''/login''] [Text ''Fazer Login'']]]]"

subsection \<open>Data of the Dashboard view\<close>

text \<open>
  \<^verbatim>\<open>User\<close> is the client library's user, of which the view reads \<^verbatim>\<open>id\<close> and the
  optional \<^verbatim>\<open>email\<close>. \<^verbatim>\<open>UserProfile\<close> is the interface of the source; its
  \<^verbatim>\<open>user_type\<close> is a string at run time (the row comes unchecked from the table), so
  it is a string here.
\<close>

record User =
  uid :: string
  email :: "string option"

record UserProfile =
  profile_id :: string
  profile_email :: string
  full_name :: string
  user_type :: string

record Session =
  session_user :: User

record dashboard_state =
  user :: "User option"
  profile :: "UserProfile option"
  loading :: bool

text \<open>The three \<^verbatim>\<open>useState\<close> initial values: the state of a view that has just mounted.\<close>

definition initial_state :: dashboard_state where
  "initial_state = \<lparr>user = None, profile = None, loading = True\<rparr>"

subsection \<open>The Session Gateway\<close>

text \<open>
  An awaited call either throws (the promise is rejected) or yields its result. The
  results have the shapes the client library gives them:
  \<^verbatim>\<open>getSession\<close> yields \<^verbatim>\<open>{data: {session}, error}\<close>, the profiles query
  \<^verbatim>\<open>{data, error}\<close> and \<^verbatim>\<open>signOut\<close> \<^verbatim>\<open>{error}\<close>. The gateway is a parameter of the
  handlers: what it answers to each call.
\<close>

datatype 'a outcome = Rejected string | Resolved 'a

record session_result =
  session :: "Session option"
  session_error :: "string option"

record profile_result =
  profile_data :: "UserProfile option"
  profile_error :: "string option"

record sign_out_result =
  sign_out_error :: "string option"

record gateway =
  getSession :: "session_result outcome"
  profiles_single :: "string \<Rightarrow> profile_result outcome"
  signOut :: "sign_out_result outcome"

subsection \<open>Calls a handler makes\<close>

record toast =
  title :: string
  description :: string
  variant :: "string option"

datatype effect =
    GetSessionCalled
  | ProfileRequested string
  | SignOutCalled
  | Navigated string
  | ConsoleError string string
  | Toasted toast
  | UserSet User
  | ProfileSet "UserProfile option"
  | LoadingSet bool

subsection \<open>\<^verbatim>\<open>checkUser\<close>\<close>

text \<open>
  The \<^verbatim>\<open>try\<close> block is the inner \<open>case\<close>: a rejected call is the \<^verbatim>\<open>catch\<close> branch
  (one \<^verbatim>\<open>console.error\<close>), and the early \<^verbatim>\<open>return\<close> after \<^verbatim>\<open>navigate("/login")\<close>
  ends the block. The \<^verbatim>\<open>finally\<close> block is the last line: it runs on every path.
\<close>

definition checkUser :: "gateway \<Rightarrow> dashboard_state \<Rightarrow> dashboard_state \<times> effect list" where
  "checkUser gw st =
     (let (st', tr) =
        (case getSession gw of
           Rejected e \<Rightarrow> (st, [GetSessionCalled, ConsoleError ''Error checking user:'' e])
         | Resolved r \<Rightarrow>
             (case session r of
                None \<Rightarrow> (st, [GetSessionCalled, Navigated ''/login''])
              | Some s \<Rightarrow>
                  (let st1 = st\<lparr>user := Some (session_user s)\<rparr>;
                       tr1 = [GetSessionCalled, UserSet (session_user s),
                              ProfileRequested (uid (session_user s))]
                   in case profiles_single gw (uid (session_user s)) of
                        Rejected e \<Rightarrow> (st1, tr1 @ [ConsoleError ''Error checking user:'' e])
                      | Resolved pr \<Rightarrow>
                          (case profile_error pr of
                             Some e \<Rightarrow> (st1, tr1 @ [ConsoleError ''Error fetching profile:'' e])
                           | None \<Rightarrow>
                               (st1\<lparr>profile := profile_data pr\<rparr>,
                                tr1 @ [ProfileSet (profile_data pr)])))))
      in (st'\<lparr>loading := False\<rparr>, tr @ [LoadingSet False]))"

text \<open>Mounting runs \<^verbatim>\<open>checkUser\<close> once (the effect with no dependencies), on the initial state.\<close>

definition mount :: "gateway \<Rightarrow> dashboard_state \<times> effect list" where
  "mount gw = checkUser gw initial_state"

subsection \<open>\<^verbatim>\<open>handleLogout\<close>\<close>

text \<open>The result \<^verbatim>\<open>signOut\<close> resolves with is not read: only a rejection reaches \<^verbatim>\<open>catch\<close>.\<close>

definition handleLogout :: "gateway \<Rightarrow> dashboard_state \<Rightarrow> dashboard_state \<times> effect list" where
  "handleLogout gw st =
     (case signOut gw of
        Resolved r \<Rightarrow>
          (st, [SignOutCalled, Navigated ''/login'',
                Toasted \<lparr>title = ''Logout realizado'',
                         description = ''Voc'' @ [e_circ] @ '' foi desconectado com sucesso'',
                         variant = None\<rparr>])
      | Rejected e \<Rightarrow>
          (st, [SignOutCalled,
                Toasted \<lparr>title = ''Erro'', description = ''Erro ao fazer logout'',
                         variant = Some ''destructive''\<rparr>]))"

subsection \<open>The Dashboard view: what it renders\<close>

text \<open>\<^verbatim>\<open>profile?.full_name || user?.email\<close>, the name after the greeting.\<close>

definition display_name :: "dashboard_state \<Rightarrow> string option" where
  "display_name st =
     js_or (map_option full_name (profile st)) (Option.bind (user st) email)"

text \<open>The text of the badge: the nested conditional on \<^verbatim>\<open>profile.user_type\<close>.\<close>

definition role_label :: "string \<Rightarrow> string" where
  "role_label t =
     (if t = ''admin'' then ''Administrador''
      else if t = ''operator'' then ''Operador'' else ''Requisitante'')"

text \<open>
  The two guards of the cards. \<^verbatim>\<open>profile?.user_type\<close> is \<^verbatim>\<open>undefined\<close> when there is no
  profile, and \<^verbatim>\<open>===\<close> then fails.
\<close>

definition is_admin :: "dashboard_state \<Rightarrow> bool" where
  "is_admin st = (map_option user_type (profile st) = Some ''admin'')"

definition is_admin_or_operator :: "dashboard_state \<Rightarrow> bool" where
  "is_admin_or_operator st =
     (map_option user_type (profile st) = Some ''admin''
      \<or> map_option user_type (profile st) = Some ''operator'')"

definition header :: "dashboard_state \<Rightarrow> element" where
  "header st =
     Elem ''div'' []
       [Elem ''div'' []
          [Elem ''h1'' [] [Text (''Sistema de Gerenciamento de Manuten'' @ [c_cedilla, a_tilde] @ ''o'')],
           Elem ''p'' []
             ([Text ''Bem-vindo, ''] @ jsx_value (display_name st)
              @ (case profile st of
                   None \<Rightarrow> []
                 | Some p \<Rightarrow> [Elem ''Badge'' [Variant ''secondary''] [Text (role_label (user_type p))]]))],
        Elem ''Button'' [OnClick HandleLogout, Variant ''outline''] [Text ''Sair'']]"

definition work_orders_card :: element where
  "work_orders_card =
     Elem ''Card'' []
       [Elem ''CardHeader'' []
          [Elem ''CardTitle'' [] [Text (''Ordens de Servi'' @ [c_cedilla] @ ''o'')],
           Elem ''CardDescription'' [] [Text (''Gerenciar ordens de manuten'' @ [c_cedilla, a_tilde] @ ''o'')]],
        Elem ''CardContent'' []
          [Elem ''div'' []
             [Elem ''Button'' [OnClick (NavigateTo ''/work-orders'')]
                [Text (''Ver Ordens de Servi'' @ [c_cedilla] @ ''o'')],
              Elem ''Button'' [Variant ''outline'', OnClick (NavigateTo ''/work-orders/new'')]
                [Text (''Nova Ordem de Servi'' @ [c_cedilla] @ ''o'')]]]]"

definition backlog_card :: element where
  "backlog_card =
     Elem ''Card'' []
       [Elem ''CardHeader'' []
          [Elem ''CardTitle'' [] [Text ''Backlog''],
           Elem ''CardDescription'' [] [Text ''Acompanhar status das ordens'']],
        Elem ''CardContent'' []
          [Elem ''Button'' [OnClick (NavigateTo ''/backlog'')] [Text ''Ver Backlog'']]]"

definition machines_card :: "dashboard_state \<Rightarrow> element" where
  "machines_card st =
     Elem ''Card'' []
       [Elem ''CardHeader'' []
          [Elem ''CardTitle'' [] [Text (''M'' @ [a_acute] @ ''quinas'')],
           Elem ''CardDescription'' [] [Text ''Cadastro de equipamentos'']],
        Elem ''CardContent'' []
          [Elem ''div'' []
             ([Elem ''Button'' [OnClick (NavigateTo ''/machines'')]
                 [Text (''Gerenciar M'' @ [a_acute] @ ''quinas'')]]
              @ jsx_and (is_admin_or_operator st)
                  (Elem ''Button'' [Variant ''outline'', OnClick (NavigateTo ''/machines/new'')]
                     [Text (''Cadastrar M'' @ [a_acute] @ ''quina'')]))]]"

definition personnel_card :: element where
  "personnel_card =
     Elem ''Card'' []
       [Elem ''CardHeader'' []
          [Elem ''CardTitle'' [] [Text ''Pessoal''],
           Elem ''CardDescription'' [] [Text (''Gerenciar t'' @ [e_acute] @ ''cnicos'')]],
        Elem ''CardContent'' []
          [Elem ''div'' []
             [Elem ''Button'' [OnClick (NavigateTo ''/personnel'')] [Text ''Gerenciar Pessoal''],
              Elem ''Button'' [Variant ''outline'', OnClick (NavigateTo ''/personnel/new'')]
                [Text (''Cadastrar T'' @ [e_acute] @ ''cnico'')]]]]"

definition requesters_card :: element where
  "requesters_card =
     Elem ''Card'' []
       [Elem ''CardHeader'' []
          [Elem ''CardTitle'' [] [Text ''Requisitantes''],
           Elem ''CardDescription'' [] [Text ''Cadastro de requisitantes'']],
        Elem ''CardContent'' []
          [Elem ''div'' []
             [Elem ''Button'' [OnClick (NavigateTo ''/requesters'')] [Text ''Gerenciar Requisitantes''],
              Elem ''Button'' [Variant ''outline'', OnClick (NavigateTo ''/requesters/new'')]
                [Text ''Cadastrar Requisitante'']]]]"

definition metrics_card :: element where
  "metrics_card =
     Elem ''Card'' []
       [Elem ''CardHeader'' []
          [Elem ''CardTitle'' [] [Text (''M'' @ [e_acute] @ ''tricas'')],
           Elem ''CardDescription'' [] [Text (''MTTR, MTBF e relat'' @ [o_acute] @ ''rios'')]],
        Elem ''CardContent'' []
          [Elem ''Button'' [OnClick (NavigateTo ''/metrics'')] [Text (''Ver M'' @ [e_acute] @ ''tricas'')]]]"

definition grid :: "dashboard_state \<Rightarrow> element" where
  "grid st =
     Elem ''div'' []
       ([work_orders_card, backlog_card, machines_card st]
        @ jsx_and (is_admin st) personnel_card
        @ jsx_and (is_admin_or_operator st) requesters_card
        @ [metrics_card])"

definition Dashboard :: "dashboard_state \<Rightarrow> element" where
  "Dashboard st =
     (if loading st then Elem ''div'' [] [Elem ''div'' [] [Text ''Carregando...'']]
      else Elem ''div'' [] [Elem ''div'' [] [header st, grid st]])"

text \<open>The names the claims use for the tiles and for the Register Machine action.\<close>

definition work_orders_title :: string where
  "work_orders_title = ''Ordens de Servi'' @ [c_cedilla] @ ''o''"

definition machines_title :: string where
  "machines_title = ''M'' @ [a_acute] @ ''quinas''"

definition metrics_title :: string where
  "metrics_title = ''M'' @ [e_acute] @ ''tricas''"

definition tile_shown :: "string \<Rightarrow> element \<Rightarrow> bool" where
  "tile_shown t v = (t \<in> set (card_titles v))"

definition action_shown :: "string \<Rightarrow> element \<Rightarrow> bool" where
  "action_shown p v = (p \<in> set (nav_targets v))"

subsection \<open>Reading a list of calls\<close>

fun profile_requests :: "effect list \<Rightarrow> string list" where
  "profile_requests [] = []"
| "profile_requests (ProfileRequested i # tr) = i # profile_requests tr"
| "profile_requests (e # tr) = profile_requests tr"

fun navigations :: "effect list \<Rightarrow> string list" where
  "navigations [] = []"
| "navigations (Navigated p # tr) = p # navigations tr"
| "navigations (e # tr) = navigations tr"

fun toasts :: "effect list \<Rightarrow> toast list" where
  "toasts [] = []"
| "toasts (Toasted t # tr) = t # toasts tr"
| "toasts (e # tr) = toasts tr"

text \<open>The calls made after the first occurrence of a call.\<close>

definition work_after :: "effect \<Rightarrow> effect list \<Rightarrow> effect list" where
  "work_after e tr = drop 1 (dropWhile (\<lambda>x. x \<noteq> e) tr)"

text \<open>
  How the gateway reports a failure: the call throws, or it resolves with a result whose
  \<^verbatim>\<open>error\<close> is set.
\<close>

definition profile_fetch_failed :: "profile_result outcome \<Rightarrow> bool" where
  "profile_fetch_failed a =
     (case a of Rejected e \<Rightarrow> True | Resolved pr \<Rightarrow> profile_error pr \<noteq> None)"

definition sign_out_failed :: "sign_out_result outcome \<Rightarrow> bool" where
  "sign_out_failed a =
     (case a of Rejected e \<Rightarrow> True | Resolved r \<Rightarrow> sign_out_error r \<noteq> None)"

subsection \<open>Example inputs\<close>

definition example_user :: User where
  "example_user = \<lparr>uid = ''u1'', email = Some ''a@x.com''\<rparr>"

definition profile_of_type :: "string \<Rightarrow> UserProfile" where
  "profile_of_type t =
     \<lparr>profile_id = ''u1'', profile_email = ''a@x.com'', full_name = ''Ana'', user_type = t\<rparr>"

definition found :: "UserProfile \<Rightarrow> profile_result outcome" where
  "found p = Resolved \<lparr>profile_data = Some p, profile_error = None\<rparr>"

definition not_found :: "profile_result outcome" where
  "not_found = Resolved \<lparr>profile_data = None, profile_error = Some ''PGRST116''\<rparr>"

text \<open>A gateway with a session of the example user, answering the profile query for it.\<close>

definition signed_in_gateway :: "profile_result outcome \<Rightarrow> gateway" where
  "signed_in_gateway a =
     \<lparr>getSession = Resolved \<lparr>session = Some \<lparr>session_user = example_user\<rparr>, session_error = None\<rparr>,
      profiles_single = (\<lambda>i. if i = ''u1'' then a else not_found),
      signOut = Resolved \<lparr>sign_out_error = None\<rparr>\<rparr>"

text \<open>A gateway with no session.\<close>

definition signed_out_gateway :: gateway where
  "signed_out_gateway =
     \<lparr>getSession = Resolved \<lparr>session = None, session_error = None\<rparr>,
      profiles_single = (\<lambda>i. not_found),
      signOut = Resolved \<lparr>sign_out_error = None\<rparr>\<rparr>"

section \<open>Properties\<close>

subsection \<open>What the Dashboard shows when it is not loading\<close>

lemmas card_defs =
  work_orders_card_def backlog_card_def machines_card_def personnel_card_def
  requesters_card_def metrics_card_def

lemmas title_defs = work_orders_title_def machines_title_def metrics_title_def

lemma card_titles_Dashboard:
  "\<not> loading st \<Longrightarrow> card_titles (Dashboard st) =
     [work_orders_title, ''Backlog'', machines_title]
     @ (if is_admin st then [''Pessoal''] else [])
     @ (if is_admin_or_operator st then [''Requisitantes''] else [])
     @ [metrics_title]"
  by (auto simp: card_titles_def Dashboard_def header_def grid_def card_defs jsx_and_def
      jsx_value_def title_defs split: option.splits)

lemma nav_targets_Dashboard:
  "\<not> loading st \<Longrightarrow> nav_targets (Dashboard st) =
     [''/work-orders'', ''/work-orders/new'', ''/backlog'', ''/machines'']
     @ (if is_admin_or_operator st then [''/machines/new''] else [])
     @ (if is_admin st then [''/personnel'', ''/personnel/new''] else [])
     @ (if is_admin_or_operator st then [''/requesters'', ''/requesters/new''] else [])
     @ [''/metrics'']"
  by (auto simp: Dashboard_def header_def grid_def card_defs jsx_and_def jsx_value_def
      split: option.splits)

lemma card_actions_Dashboard:
  "\<not> loading st \<Longrightarrow> card_actions (Dashboard st) =
     [(work_orders_title, [''/work-orders'', ''/work-orders/new'']),
      (''Backlog'', [''/backlog'']),
      (machines_title,
       ''/machines'' # (if is_admin_or_operator st then [''/machines/new''] else []))]
     @ (if is_admin st then [(''Pessoal'', [''/personnel'', ''/personnel/new''])] else [])
     @ (if is_admin_or_operator st
        then [(''Requisitantes'', [''/requesters'', ''/requesters/new''])] else [])
     @ [(metrics_title, [''/metrics''])]"
  by (auto simp: card_actions_def card_titles_def Dashboard_def header_def grid_def card_defs
      jsx_and_def jsx_value_def title_defs split: option.splits)

lemma badge_elems_Dashboard:
  "\<not> loading st \<Longrightarrow> elems_with_tag ''Badge'' (Dashboard st) =
     (case profile st of
        None \<Rightarrow> []
      | Some p \<Rightarrow> [Elem ''Badge'' [Variant ''secondary''] [Text (role_label (user_type p))]])"
  by (auto simp: Dashboard_def header_def grid_def card_defs jsx_and_def jsx_value_def
      split: option.splits)

lemma badges_Dashboard:
  "\<not> loading st \<Longrightarrow> badges (Dashboard st) =
     (case profile st of None \<Rightarrow> [] | Some p \<Rightarrow> [role_label (user_type p)])"
  by (simp add: badges_def badge_elems_Dashboard split: option.splits)

lemma paragraphs_Dashboard:
  "\<not> loading st \<Longrightarrow> paragraphs (Dashboard st) =
     [''Bem-vindo, '' @ (case display_name st of None \<Rightarrow> [] | Some n \<Rightarrow> n)]"
  by (auto simp: paragraphs_def Dashboard_def header_def grid_def card_defs jsx_and_def
      jsx_value_def split: option.splits)

lemma is_admin_iff:
  "is_admin st = (case profile st of None \<Rightarrow> False | Some p \<Rightarrow> user_type p = ''admin'')"
  by (simp add: is_admin_def split: option.splits)

lemma is_admin_or_operator_iff:
  "is_admin_or_operator st =
     (case profile st of
        None \<Rightarrow> False
      | Some p \<Rightarrow> user_type p = ''admin'' \<or> user_type p = ''operator'')"
  by (simp add: is_admin_or_operator_def split: option.splits)

lemma personnel_shown_iff:
  "\<not> loading st \<Longrightarrow> tile_shown ''Pessoal'' (Dashboard st) = is_admin st"
  by (simp add: tile_shown_def card_titles_Dashboard title_defs)

lemma requesters_shown_iff:
  "\<not> loading st \<Longrightarrow> tile_shown ''Requisitantes'' (Dashboard st) = is_admin_or_operator st"
  by (simp add: tile_shown_def card_titles_Dashboard title_defs)

lemma register_machine_shown_iff:
  "\<not> loading st \<Longrightarrow> action_shown ''/machines/new'' (Dashboard st) = is_admin_or_operator st"
  by (simp add: action_shown_def nav_targets_Dashboard)

lemma open_tiles_shown:
  "\<not> loading st \<Longrightarrow>
   tile_shown work_orders_title (Dashboard st) \<and> tile_shown ''Backlog'' (Dashboard st)
   \<and> tile_shown machines_title (Dashboard st) \<and> tile_shown metrics_title (Dashboard st)"
  by (simp add: tile_shown_def card_titles_Dashboard)

subsection \<open>The paths of \<^verbatim>\<open>checkUser\<close>\<close>

lemma checkUser_no_session:
  "getSession gw = Resolved r \<Longrightarrow> session r = None \<Longrightarrow>
   checkUser gw st =
     (st\<lparr>loading := False\<rparr>, [GetSessionCalled, Navigated ''/login'', LoadingSet False])"
  by (simp add: checkUser_def)

lemma checkUser_session_rejected:
  "getSession gw = Rejected e \<Longrightarrow>
   checkUser gw st =
     (st\<lparr>loading := False\<rparr>,
      [GetSessionCalled, ConsoleError ''Error checking user:'' e, LoadingSet False])"
  by (simp add: checkUser_def)

lemma checkUser_profile_failed:
  "getSession gw = Resolved r \<Longrightarrow> session r = Some s \<Longrightarrow>
   profile_fetch_failed (profiles_single gw (uid (session_user s))) \<Longrightarrow>
   fst (checkUser gw st) = st\<lparr>user := Some (session_user s), loading := False\<rparr>"
  by (auto simp: checkUser_def profile_fetch_failed_def Let_def
      split: outcome.splits option.splits)

lemma checkUser_profile_found:
  "getSession gw = Resolved r \<Longrightarrow> session r = Some s \<Longrightarrow>
   profiles_single gw (uid (session_user s)) = Resolved pr \<Longrightarrow> profile_error pr = None \<Longrightarrow>
   checkUser gw st =
     (st\<lparr>user := Some (session_user s), profile := profile_data pr, loading := False\<rparr>,
      [GetSessionCalled, UserSet (session_user s), ProfileRequested (uid (session_user s)),
       ProfileSet (profile_data pr), LoadingSet False])"
  by (simp add: checkUser_def Let_def)

lemma checkUser_not_loading: "\<not> loading (fst (checkUser gw st))"
  by (simp add: checkUser_def Let_def split: outcome.splits option.splits prod.splits)

subsection \<open>The paths of \<^verbatim>\<open>handleLogout\<close>\<close>

lemma handleLogout_state: "fst (handleLogout gw st) = st"
  by (simp add: handleLogout_def split: outcome.splits)

lemma handleLogout_resolved:
  "signOut gw = Resolved r \<Longrightarrow>
   navigations (snd (handleLogout gw st)) = [''/login'']
   \<and> map title (toasts (snd (handleLogout gw st))) = [''Logout realizado'']
   \<and> map variant (toasts (snd (handleLogout gw st))) = [None]"
  by (simp add: handleLogout_def)

lemma handleLogout_rejected:
  "signOut gw = Rejected e \<Longrightarrow>
   navigations (snd (handleLogout gw st)) = []
   \<and> toasts (snd (handleLogout gw st)) =
       [\<lparr>title = ''Erro'', description = ''Erro ao fazer logout'',
         variant = Some ''destructive''\<rparr>]"
  by (simp add: handleLogout_def)

subsection \<open>Mounting without a session\<close>

text \<open>
  C1, as stated: on every mount in which the gateway returns no session, the view
  redirects to \<^verbatim>\<open>/login\<close>, issues no profile request, and performs no further work
  after the redirect. At the gateway with no session the three do not hold together:
  a call follows the redirect.
\<close>

theorem mount_no_session_work_after_redirect:
  "\<not> (navigations (snd (mount signed_out_gateway)) = [''/login'']
      \<and> profile_requests (snd (mount signed_out_gateway)) = []
      \<and> work_after (Navigated ''/login'') (snd (mount signed_out_gateway)) = [])"
  by (simp add: mount_def checkUser_def signed_out_gateway_def work_after_def)

text \<open>
  C1, amended: on every mount in which \<^verbatim>\<open>getSession\<close> resolves with no session,
  \<^verbatim>\<open>checkUser\<close> makes exactly three calls, in order: \<^verbatim>\<open>getSession\<close>,
  \<^verbatim>\<open>navigate("/login")\<close> and \<^verbatim>\<open>setLoading(false)\<close>. So the view redirects to
  \<^verbatim>\<open>/login\<close>, issues no profile request and stores neither a user nor a profile; the
  one step after the redirect is the \<^verbatim>\<open>finally\<close> block clearing the loading flag.
\<close>

theorem mount_no_session:
  assumes "getSession gw = Resolved r" and "session r = None"
  shows "mount gw =
           (\<lparr>user = None, profile = None, loading = False\<rparr>,
            [GetSessionCalled, Navigated ''/login'', LoadingSet False])
         \<and> navigations (snd (mount gw)) = [''/login'']
         \<and> profile_requests (snd (mount gw)) = []
         \<and> work_after (Navigated ''/login'') (snd (mount gw)) = [LoadingSet False]"
  using assms by (simp add: mount_def checkUser_no_session initial_state_def work_after_def)

theorem mount_no_session_witness:
  "getSession signed_out_gateway = Resolved \<lparr>session = None, session_error = None\<rparr>
   \<and> navigations (snd (mount signed_out_gateway)) = [''/login'']
   \<and> profile_requests (snd (mount signed_out_gateway)) = []
   \<and> work_after (Navigated ''/login'') (snd (mount signed_out_gateway)) = [LoadingSet False]
   \<and> fst (mount signed_out_gateway) = \<lparr>user = None, profile = None, loading = False\<rparr>"
proof -
  have h: "getSession signed_out_gateway = Resolved \<lparr>session = None, session_error = None\<rparr>"
    by (simp add: signed_out_gateway_def)
  have n: "session \<lparr>session = None, session_error = None\<rparr> = None"
    by simp
  from mount_no_session [OF h n] h show ?thesis
    by (simp add: work_after_def)
qed

subsection \<open>Signing out\<close>

text \<open>
  C2, at the input where it fails: \<^verbatim>\<open>signOut\<close> resolves with a result whose
  \<^verbatim>\<open>error\<close> is set, which is a failure the gateway reports. \<^verbatim>\<open>handleLogout\<close> does not
  read the result: it redirects to \<^verbatim>\<open>/login\<close> and shows the success notification.
  (When \<^verbatim>\<open>signOut\<close> throws, \<open>handleLogout_rejected\<close> gives what the claim says, and
  \<open>handleLogout_state\<close> that the state is unchanged on every path.)
\<close>

theorem handleLogout_resolved_with_error:
  "sign_out_failed (Resolved \<lparr>sign_out_error = Some e\<rparr>)
   \<and> handleLogout (gw\<lparr>signOut := Resolved \<lparr>sign_out_error = Some e\<rparr>\<rparr>) st =
       (st, [SignOutCalled, Navigated ''/login'',
             Toasted \<lparr>title = ''Logout realizado'',
                      description = ''Voc'' @ [e_circ] @ '' foi desconectado com sucesso'',
                      variant = None\<rparr>])"
  by (simp add: sign_out_failed_def handleLogout_def)

subsection \<open>Mounting when the session check throws\<close>

text \<open>
  C3, at the input where it fails: \<^verbatim>\<open>getSession\<close> throws on mount. The \<^verbatim>\<open>catch\<close>
  block logs the error and nothing else: there is no redirect, the loading flag is
  cleared, and the view renders its page with the four tiles open to everyone, for no
  user.
\<close>

theorem mount_session_check_throws:
  "mount (gw\<lparr>getSession := Rejected e\<rparr>) =
     (\<lparr>user = None, profile = None, loading = False\<rparr>,
      [GetSessionCalled, ConsoleError ''Error checking user:'' e, LoadingSet False])
   \<and> navigations (snd (mount (gw\<lparr>getSession := Rejected e\<rparr>))) = []
   \<and> paragraphs (Dashboard (fst (mount (gw\<lparr>getSession := Rejected e\<rparr>)))) = [''Bem-vindo, '']
   \<and> card_titles (Dashboard (fst (mount (gw\<lparr>getSession := Rejected e\<rparr>)))) =
       [work_orders_title, ''Backlog'', machines_title, metrics_title]"
proof -
  have m: "mount (gw\<lparr>getSession := Rejected e\<rparr>) =
     (\<lparr>user = None, profile = None, loading = False\<rparr>,
      [GetSessionCalled, ConsoleError ''Error checking user:'' e, LoadingSet False])"
    by (simp add: mount_def checkUser_session_rejected initial_state_def)
  show ?thesis
    unfolding m
    by (simp add: card_titles_Dashboard paragraphs_Dashboard is_admin_def
        is_admin_or_operator_def display_name_def js_or_def)
qed

subsection \<open>Mounting with a session\<close>

text \<open>
  C4: on every mount with a session where the profile fetch fails (the query throws, or
  resolves with its \<^verbatim>\<open>error\<close> set), the view leaves the loading state and renders its
  page: the greeting is followed by the email of the session's user, the Register Machine
  action and the Personnel and Requesters tiles are hidden, and the tiles are the four
  open to everyone.
\<close>

theorem mount_profile_fetch_failed:
  assumes "getSession gw = Resolved r" and "session r = Some s"
    and "profile_fetch_failed (profiles_single gw (uid (session_user s)))"
  shows "\<not> loading (fst (mount gw))
         \<and> paragraphs (Dashboard (fst (mount gw))) =
             [''Bem-vindo, '' @ (case email (session_user s) of None \<Rightarrow> [] | Some m \<Rightarrow> m)]
         \<and> \<not> action_shown ''/machines/new'' (Dashboard (fst (mount gw)))
         \<and> \<not> tile_shown ''Pessoal'' (Dashboard (fst (mount gw)))
         \<and> \<not> tile_shown ''Requisitantes'' (Dashboard (fst (mount gw)))
         \<and> card_titles (Dashboard (fst (mount gw))) =
             [work_orders_title, ''Backlog'', machines_title, metrics_title]"
proof -
  have m: "fst (mount gw) = \<lparr>user = Some (session_user s), profile = None, loading = False\<rparr>"
    using assms by (simp add: mount_def checkUser_profile_failed initial_state_def)
  show ?thesis
    unfolding m
    by (simp add: card_titles_Dashboard paragraphs_Dashboard personnel_shown_iff
        requesters_shown_iff register_machine_shown_iff is_admin_def is_admin_or_operator_def
        display_name_def js_or_def)
qed

theorem mount_profile_fetch_failed_witness:
  "profile_fetch_failed (profiles_single (signed_in_gateway not_found) ''u1'')
   \<and> paragraphs (Dashboard (fst (mount (signed_in_gateway not_found)))) = [''Bem-vindo, a@x.com'']
   \<and> \<not> action_shown ''/machines/new'' (Dashboard (fst (mount (signed_in_gateway not_found))))
   \<and> \<not> tile_shown ''Pessoal'' (Dashboard (fst (mount (signed_in_gateway not_found))))
   \<and> \<not> tile_shown ''Requisitantes'' (Dashboard (fst (mount (signed_in_gateway not_found))))"
proof -
  have h: "getSession (signed_in_gateway not_found) =
      Resolved \<lparr>session = Some \<lparr>session_user = example_user\<rparr>, session_error = None\<rparr>"
    by (simp add: signed_in_gateway_def)
  have s: "session \<lparr>session = Some \<lparr>session_user = example_user\<rparr>, session_error = None\<rparr> =
      Some \<lparr>session_user = example_user\<rparr>"
    by simp
  have f: "profile_fetch_failed
      (profiles_single (signed_in_gateway not_found) (uid (session_user \<lparr>session_user = example_user\<rparr>)))"
    by (simp add: signed_in_gateway_def not_found_def profile_fetch_failed_def example_user_def)
  from mount_profile_fetch_failed [OF h s f] f show ?thesis
    by (simp add: example_user_def)
qed

text \<open>
  C5: on every mount with a session whose fetched profile has \<^verbatim>\<open>user_type\<close>
  \<^verbatim>\<open>admin\<close>, the tiles shown include Personnel and Requesters, and the Register
  Machine action is shown.
\<close>

theorem mount_admin_tiles:
  assumes "getSession gw = Resolved r" and "session r = Some s"
    and "profiles_single gw (uid (session_user s)) = Resolved pr"
    and "profile_error pr = None" and "profile_data pr = Some p"
    and "user_type p = ''admin''"
  shows "tile_shown ''Pessoal'' (Dashboard (fst (mount gw)))
         \<and> tile_shown ''Requisitantes'' (Dashboard (fst (mount gw)))
         \<and> action_shown ''/machines/new'' (Dashboard (fst (mount gw)))"
proof -
  have m: "fst (mount gw) = \<lparr>user = Some (session_user s), profile = Some p, loading = False\<rparr>"
    using assms by (simp add: mount_def checkUser_profile_found initial_state_def)
  show ?thesis
    unfolding m using assms(6)
    by (simp add: personnel_shown_iff requesters_shown_iff register_machine_shown_iff
        is_admin_def is_admin_or_operator_def)
qed

theorem mount_admin_tiles_witness:
  "user_type (profile_of_type ''admin'') = ''admin''
   \<and> tile_shown ''Pessoal'' (Dashboard (fst (mount (signed_in_gateway (found (profile_of_type ''admin''))))))
   \<and> tile_shown ''Requisitantes'' (Dashboard (fst (mount (signed_in_gateway (found (profile_of_type ''admin''))))))
   \<and> action_shown ''/machines/new'' (Dashboard (fst (mount (signed_in_gateway (found (profile_of_type ''admin''))))))"
proof -
  let ?gw = "signed_in_gateway (found (profile_of_type ''admin''))"
  have h: "getSession ?gw =
      Resolved \<lparr>session = Some \<lparr>session_user = example_user\<rparr>, session_error = None\<rparr>"
    by (simp add: signed_in_gateway_def)
  have s: "session \<lparr>session = Some \<lparr>session_user = example_user\<rparr>, session_error = None\<rparr> =
      Some \<lparr>session_user = example_user\<rparr>"
    by simp
  have q: "profiles_single ?gw (uid (session_user \<lparr>session_user = example_user\<rparr>)) =
      Resolved \<lparr>profile_data = Some (profile_of_type ''admin''), profile_error = None\<rparr>"
    by (simp add: signed_in_gateway_def found_def example_user_def)
  have e: "profile_error \<lparr>profile_data = Some (profile_of_type ''admin''), profile_error = None\<rparr> = None"
    by simp
  have d: "profile_data \<lparr>profile_data = Some (profile_of_type ''admin''), profile_error = None\<rparr> =
      Some (profile_of_type ''admin'')"
    by simp
  have t: "user_type (profile_of_type ''admin'') = ''admin''"
    by (simp add: profile_of_type_def)
  from mount_admin_tiles [OF h s q e d t] t show ?thesis
    by simp
qed

text \<open>
  C6: on every mount with a session whose fetched profile has \<^verbatim>\<open>user_type\<close>
  \<^verbatim>\<open>requester\<close>, the Personnel tile, the Requesters tile and the Register Machine
  action are absent, and the Work Orders, Backlog, Machines and Metrics tiles are present.
\<close>

theorem mount_requester_tiles:
  assumes "getSession gw = Resolved r" and "session r = Some s"
    and "profiles_single gw (uid (session_user s)) = Resolved pr"
    and "profile_error pr = None" and "profile_data pr = Some p"
    and "user_type p = ''requester''"
  shows "\<not> tile_shown ''Pessoal'' (Dashboard (fst (mount gw)))
         \<and> \<not> tile_shown ''Requisitantes'' (Dashboard (fst (mount gw)))
         \<and> \<not> action_shown ''/machines/new'' (Dashboard (fst (mount gw)))
         \<and> tile_shown work_orders_title (Dashboard (fst (mount gw)))
         \<and> tile_shown ''Backlog'' (Dashboard (fst (mount gw)))
         \<and> tile_shown machines_title (Dashboard (fst (mount gw)))
         \<and> tile_shown metrics_title (Dashboard (fst (mount gw)))"
proof -
  have m: "fst (mount gw) = \<lparr>user = Some (session_user s), profile = Some p, loading = False\<rparr>"
    using assms by (simp add: mount_def checkUser_profile_found initial_state_def)
  show ?thesis
    unfolding m using assms(6)
    by (simp add: personnel_shown_iff requesters_shown_iff register_machine_shown_iff
        open_tiles_shown is_admin_def is_admin_or_operator_def)
qed

theorem mount_requester_tiles_witness:
  "user_type (profile_of_type ''requester'') = ''requester''
   \<and> \<not> tile_shown ''Pessoal'' (Dashboard (fst (mount (signed_in_gateway (found (profile_of_type ''requester''))))))
   \<and> \<not> tile_shown ''Requisitantes'' (Dashboard (fst (mount (signed_in_gateway (found (profile_of_type ''requester''))))))
   \<and> \<not> action_shown ''/machines/new'' (Dashboard (fst (mount (signed_in_gateway (found (profile_of_type ''requester''))))))
   \<and> tile_shown ''Backlog'' (Dashboard (fst (mount (signed_in_gateway (found (profile_of_type ''requester''))))))"
proof -
  let ?gw = "signed_in_gateway (found (profile_of_type ''requester''))"
  have h: "getSession ?gw =
      Resolved \<lparr>session = Some \<lparr>session_user = example_user\<rparr>, session_error = None\<rparr>"
    by (simp add: signed_in_gateway_def)
  have s: "session \<lparr>session = Some \<lparr>session_user = example_user\<rparr>, session_error = None\<rparr> =
      Some \<lparr>session_user = example_user\<rparr>"
    by simp
  have q: "profiles_single ?gw (uid (session_user \<lparr>session_user = example_user\<rparr>)) =
      Resolved \<lparr>profile_data = Some (profile_of_type ''requester''), profile_error = None\<rparr>"
    by (simp add: signed_in_gateway_def found_def example_user_def)
  have e: "profile_error \<lparr>profile_data = Some (profile_of_type ''requester''), profile_error = None\<rparr> = None"
    by simp
  have d: "profile_data \<lparr>profile_data = Some (profile_of_type ''requester''), profile_error = None\<rparr> =
      Some (profile_of_type ''requester'')"
    by simp
  have t: "user_type (profile_of_type ''requester'') = ''requester''"
    by (simp add: profile_of_type_def)
  from mount_requester_tiles [OF h s q e d t] t show ?thesis
    by simp
qed

text \<open>
  C7: the scenario. For a session of any user and the fetched profile
  \<^verbatim>\<open>{id: "u1", email: "a@x.com", full_name: "Ana", user_type: "operator"}\<close>, the
  header shows "Bem-vindo, Ana" with the one badge "Operador", and the tiles are, in
  order, Work Orders, Backlog, Machines with the Register Machine action, Requesters with
  its register action, and Metrics; there is no Personnel tile.
\<close>

theorem mount_operator_scenario:
  "paragraphs (Dashboard (fst (mount
       \<lparr>getSession = Resolved \<lparr>session = Some s, session_error = None\<rparr>,
        profiles_single = (\<lambda>i. found (profile_of_type ''operator'')),
        signOut = so\<rparr>))) = [''Bem-vindo, Ana'']
   \<and> badges (Dashboard (fst (mount
       \<lparr>getSession = Resolved \<lparr>session = Some s, session_error = None\<rparr>,
        profiles_single = (\<lambda>i. found (profile_of_type ''operator'')),
        signOut = so\<rparr>))) = [''Operador'']
   \<and> card_actions (Dashboard (fst (mount
       \<lparr>getSession = Resolved \<lparr>session = Some s, session_error = None\<rparr>,
        profiles_single = (\<lambda>i. found (profile_of_type ''operator'')),
        signOut = so\<rparr>))) =
       [(work_orders_title, [''/work-orders'', ''/work-orders/new'']),
        (''Backlog'', [''/backlog'']),
        (machines_title, [''/machines'', ''/machines/new'']),
        (''Requisitantes'', [''/requesters'', ''/requesters/new'']),
        (metrics_title, [''/metrics''])]
   \<and> \<not> tile_shown ''Pessoal'' (Dashboard (fst (mount
       \<lparr>getSession = Resolved \<lparr>session = Some s, session_error = None\<rparr>,
        profiles_single = (\<lambda>i. found (profile_of_type ''operator'')),
        signOut = so\<rparr>)))"
proof -
  have m: "fst (mount
       \<lparr>getSession = Resolved \<lparr>session = Some s, session_error = None\<rparr>,
        profiles_single = (\<lambda>i. found (profile_of_type ''operator'')),
        signOut = so\<rparr>) =
      \<lparr>user = Some (session_user s), profile = Some (profile_of_type ''operator''),
       loading = False\<rparr>"
    by (simp add: mount_def checkUser_def found_def initial_state_def)
  show ?thesis
    unfolding m
    by (simp add: paragraphs_Dashboard badges_Dashboard card_actions_Dashboard
        personnel_shown_iff is_admin_def is_admin_or_operator_def display_name_def js_or_def
        role_label_def profile_of_type_def)
qed

subsection \<open>The Landing view\<close>

text \<open>
  C8: the Landing view takes no state and no gateway (its only argument is the unit
  value), so every render gives the same tree, and that tree has exactly one navigation
  affordance: one link, to \<^verbatim>\<open>/login\<close>, and no button.
\<close>

theorem Index_one_link_to_login:
  "Index u = Index ()
   \<and> nav_targets (Index u) = [''/login'']
   \<and> elems_with_tag ''a'' (Index u) = [Elem ''a'' [Href ''/login''] [Text ''Fazer Login'']]
   \<and> elems_with_tag ''Button'' (Index u) = []"
  by (simp add: Index_def)

subsection \<open>Role gates\<close>

text \<open>
  C9: in every render that is not loading, the Personnel tile is shown exactly when a
  profile is stored and its \<^verbatim>\<open>user_type\<close> is \<^verbatim>\<open>admin\<close>; the Register Machine action
  and the Requesters tile are shown exactly when a profile is stored and its
  \<^verbatim>\<open>user_type\<close> is \<^verbatim>\<open>admin\<close> or \<^verbatim>\<open>operator\<close>. So a stored profile whose \<^verbatim>\<open>user_type\<close>
  is none of \<^verbatim>\<open>admin\<close>, \<^verbatim>\<open>operator\<close>, \<^verbatim>\<open>requester\<close> shows none of the three, and its
  badge reads "Requisitante".
\<close>

theorem Dashboard_role_gates:
  assumes "\<not> loading st"
  shows "tile_shown ''Pessoal'' (Dashboard st) =
           (case profile st of None \<Rightarrow> False | Some p \<Rightarrow> user_type p = ''admin'')
         \<and> action_shown ''/machines/new'' (Dashboard st) =
           (case profile st of
              None \<Rightarrow> False
            | Some p \<Rightarrow> user_type p = ''admin'' \<or> user_type p = ''operator'')
         \<and> tile_shown ''Requisitantes'' (Dashboard st) =
           (case profile st of
              None \<Rightarrow> False
            | Some p \<Rightarrow> user_type p = ''admin'' \<or> user_type p = ''operator'')
         \<and> (\<forall>p. profile st = Some p
                 \<and> user_type p \<notin> {''admin'', ''operator'', ''requester''} \<longrightarrow>
               \<not> tile_shown ''Pessoal'' (Dashboard st)
               \<and> \<not> action_shown ''/machines/new'' (Dashboard st)
               \<and> \<not> tile_shown ''Requisitantes'' (Dashboard st)
               \<and> badges (Dashboard st) = [''Requisitante''])"
proof -
  have a: "tile_shown ''Pessoal'' (Dashboard st) =
           (case profile st of None \<Rightarrow> False | Some p \<Rightarrow> user_type p = ''admin'')"
    by (simp only: personnel_shown_iff [OF assms] is_admin_iff)
  have b: "action_shown ''/machines/new'' (Dashboard st) =
           (case profile st of
              None \<Rightarrow> False
            | Some p \<Rightarrow> user_type p = ''admin'' \<or> user_type p = ''operator'')"
    by (simp only: register_machine_shown_iff [OF assms] is_admin_or_operator_iff)
  have c: "tile_shown ''Requisitantes'' (Dashboard st) =
           (case profile st of
              None \<Rightarrow> False
            | Some p \<Rightarrow> user_type p = ''admin'' \<or> user_type p = ''operator'')"
    by (simp only: requesters_shown_iff [OF assms] is_admin_or_operator_iff)
  have d: "badges (Dashboard st) = [''Requisitante'']"
    if "profile st = Some p" and "user_type p \<noteq> ''admin''" and "user_type p \<noteq> ''operator''"
    for p
    using assms that by (simp add: badges_Dashboard role_label_def)
  have e: "\<not> tile_shown ''Pessoal'' (Dashboard st)
           \<and> \<not> action_shown ''/machines/new'' (Dashboard st)
           \<and> \<not> tile_shown ''Requisitantes'' (Dashboard st)"
    if "profile st = Some p" and "user_type p \<noteq> ''admin''" and "user_type p \<noteq> ''operator''"
    for p
    unfolding a b c using that by simp
  from a b c d e show ?thesis
    by (intro conjI allI impI) (simp_all del: One_nat_def)
qed


theorem Dashboard_role_gates_witness:
  "\<not> loading \<lparr>user = Some example_user, profile = Some (profile_of_type ''guest''), loading = False\<rparr>
   \<and> user_type (profile_of_type ''guest'') \<notin> {''admin'', ''operator'', ''requester''}
   \<and> \<not> tile_shown ''Pessoal''
        (Dashboard \<lparr>user = Some example_user, profile = Some (profile_of_type ''guest''), loading = False\<rparr>)
   \<and> \<not> action_shown ''/machines/new''
        (Dashboard \<lparr>user = Some example_user, profile = Some (profile_of_type ''guest''), loading = False\<rparr>)
   \<and> \<not> tile_shown ''Requisitantes''
        (Dashboard \<lparr>user = Some example_user, profile = Some (profile_of_type ''guest''), loading = False\<rparr>)
   \<and> badges
        (Dashboard \<lparr>user = Some example_user, profile = Some (profile_of_type ''guest''), loading = False\<rparr>)
      = [''Requisitante'']"
proof -
  let ?st = "\<lparr>user = Some example_user, profile = Some (profile_of_type ''guest''), loading = False\<rparr>"
  have l: "\<not> loading ?st"
    by simp
  have p: "profile ?st = Some (profile_of_type ''guest'')"
    by simp
  have t: "user_type (profile_of_type ''guest'') \<notin> {''admin'', ''operator'', ''requester''}"
    by (simp add: profile_of_type_def)
  from Dashboard_role_gates [OF l]
  have "profile ?st = Some (profile_of_type ''guest'')
        \<and> user_type (profile_of_type ''guest'') \<notin> {''admin'', ''operator'', ''requester''} \<longrightarrow>
        \<not> tile_shown ''Pessoal'' (Dashboard ?st)
        \<and> \<not> action_shown ''/machines/new'' (Dashboard ?st)
        \<and> \<not> tile_shown ''Requisitantes'' (Dashboard ?st)
        \<and> badges (Dashboard ?st) = [''Requisitante'']"
    by (elim conjE allE)
  with p t have "\<not> tile_shown ''Pessoal'' (Dashboard ?st)
        \<and> \<not> action_shown ''/machines/new'' (Dashboard ?st)
        \<and> \<not> tile_shown ''Requisitantes'' (Dashboard ?st)
        \<and> badges (Dashboard ?st) = [''Requisitante'']"
    by simp
  with l t show ?thesis
    by simp
qed

text \<open>
  C10: in every render that is not loading and has no stored profile, there is no badge
  element at all, and the Work Orders, Backlog, Machines and Metrics tiles are shown.
\<close>

theorem Dashboard_no_profile:
  assumes "\<not> loading st" and "profile st = None"
  shows "elems_with_tag ''Badge'' (Dashboard st) = []
         \<and> tile_shown work_orders_title (Dashboard st)
         \<and> tile_shown ''Backlog'' (Dashboard st)
         \<and> tile_shown machines_title (Dashboard st)
         \<and> tile_shown metrics_title (Dashboard st)"
  using assms by (simp add: badge_elems_Dashboard open_tiles_shown)

theorem Dashboard_no_profile_witness:
  "profile \<lparr>user = Some example_user, profile = None, loading = False\<rparr> = None
   \<and> elems_with_tag ''Badge'' (Dashboard \<lparr>user = Some example_user, profile = None, loading = False\<rparr>) = []
   \<and> tile_shown ''Backlog'' (Dashboard \<lparr>user = Some example_user, profile = None, loading = False\<rparr>)"
proof -
  let ?st = "\<lparr>user = Some example_user, profile = None, loading = False\<rparr>"
  have l: "\<not> loading ?st"
    by simp
  have p: "profile ?st = None"
    by simp
  from Dashboard_no_profile [OF l p] p show ?thesis
    by simp
qed

end
